theory Spec2Isabelle
  imports Complex_Main
begin

section \<open>Errors and the state-and-exception discipline\<close>

text \<open>
  The Python code mutates shared objects (the weights container, the processor instance)
  and may raise.  A statement of the source is modelled as a function from the state
  before it to a result (an error or a value) together with the state after it, so that
  the state left behind by a failing call is part of the model.

  The errors are the Python exceptions the source raises itself (\<open>assert\<close>, a missing
  dictionary key, a local variable read before assignment), the errors of the weight
  ledger and of the selection registry, and \<open>ExternalError\<close> for whatever an external
  collaborator raises.
\<close>

datatype error =
    AssertionError string
  | KeyError string
  | UnboundLocalError string
  | ShapeError
  | ConfigurationError
  | DuplicateWeightError string
  | DuplicateSelectionError string
  | UnknownSelectionError string
  | ExternalError string

type_synonym ('s, 'a) prog = "'s \<Rightarrow> (error + 'a) \<times> 's"

definition ret :: "'a \<Rightarrow> ('s, 'a) prog" where
  "ret a s = (Inr a, s)"

definition raise :: "error \<Rightarrow> ('s, 'a) prog" where
  "raise e s = (Inl e, s)"

definition lift :: "error + 'a \<Rightarrow> ('s, 'a) prog" where
  "lift r s = (r, s)"

definition bind_prog :: "('s, 'a) prog \<Rightarrow> ('a \<Rightarrow> ('s, 'b) prog) \<Rightarrow> ('s, 'b) prog" where
  "bind_prog m f s = (case m s of (Inl e, s') \<Rightarrow> (Inl e, s') | (Inr a, s') \<Rightarrow> f a s')"

text \<open>Python's \<open>d[k]\<close> on a dictionary: a missing key raises \<open>KeyError\<close>.\<close>

definition dict_get :: "(string \<rightharpoonup> 'v) \<Rightarrow> string \<Rightarrow> error + 'v" where
  "dict_get d k = (case d k of None \<Rightarrow> Inl (KeyError k) | Some v \<Rightarrow> Inr v)"

section \<open>The weight ledger\<close>

text \<open>
  Modelled from the spec: the class \<open>Weights\<close> (imported from \<open>coffea.analysis_tools\<close>) is
  not among the source files.  The model follows the spec's Weight Ledger: a factor is a
  nominal per-event array with an optional pair of up/down variant arrays; \<open>add\<close>
  registers a factor and fails if the name is already used, if a length differs from the
  batch size, or if exactly one of up/down is given; \<open>weight()\<close> is the elementwise
  product of all nominal factors; the statistics give, per factor and in registration
  order, the sum, the sum of squares and the count.
\<close>

record WeightFactor =
  nominal :: "real list"
  variants :: "(real list \<times> real list) option"

record Weights =
  w_size :: nat
  w_factors :: "(string \<times> WeightFactor) list"

definition Weights_init :: "nat \<Rightarrow> Weights" where
  "Weights_init n = \<lparr>w_size = n, w_factors = []\<rparr>"

definition Weights_add ::
  "Weights \<Rightarrow> string \<Rightarrow> real list \<Rightarrow> real list option \<Rightarrow> real list option \<Rightarrow> error + Weights" where
  "Weights_add w name weight weightUp weightDown =
     (if name \<in> set (map fst (w_factors w)) then Inl (DuplicateWeightError name)
      else if length weight \<noteq> w_size w then Inl ShapeError
      else (case (weightUp, weightDown) of
              (None, None) \<Rightarrow>
                Inr (w\<lparr>w_factors := w_factors w @ [(name, \<lparr>nominal = weight, variants = None\<rparr>)]\<rparr>)
            | (Some up, Some down) \<Rightarrow>
                if length up \<noteq> w_size w \<or> length down \<noteq> w_size w then Inl ShapeError
                else Inr (w\<lparr>w_factors := w_factors w @
                               [(name, \<lparr>nominal = weight, variants = Some (up, down)\<rparr>)]\<rparr>)
            | _ \<Rightarrow> Inl ConfigurationError))"

definition Weights_weight :: "Weights \<Rightarrow> real list" where
  "Weights_weight w =
     foldl (\<lambda>acc f. map2 (*) acc (nominal (snd f))) (replicate (w_size w) 1) (w_factors w)"

record WeightStatistics =
  sumw :: real
  sumw2 :: real
  count :: nat

definition Weights_weightStatistics :: "Weights \<Rightarrow> (string \<times> WeightStatistics) list" where
  "Weights_weightStatistics w =
     map (\<lambda>(name, f). (name, \<lparr>sumw = sum_list (nominal f),
                              sumw2 = sum_list (map (\<lambda>x. x * x) (nominal f)),
                              count = length (nominal f)\<rparr>)) (w_factors w)"

section \<open>The lepton correctors (corrections/lepton.py)\<close>

text \<open>
  The scale-factor service (\<open>correctionlib\<close>) is external: \<open>cset key args\<close> stands for
  \<open>self.cset[key].evaluate(*args)\<close>, which returns one value per flattened object or
  raises.  Every call made to the service is appended to a log kept beside the weights
  container, so that "which lookups were made, with which arguments, before which
  failure" is a property of the state.
\<close>

datatype arg = Str string | Arr "real list"

type_synonym correction_set = "string \<Rightarrow> arg list \<Rightarrow> error + real list"

record corr_state =
  weights :: Weights
  lookups :: "(string \<times> arg list) list"

definition evaluate :: "correction_set \<Rightarrow> string \<Rightarrow> arg list \<Rightarrow> (corr_state, real list) prog" where
  "evaluate cset key args s = (cset key args, s\<lparr>lookups := lookups s @ [(key, args)]\<rparr>)"

definition weights_add ::
  "string \<Rightarrow> real list \<Rightarrow> real list option \<Rightarrow> real list option \<Rightarrow> (corr_state, unit) prog" where
  "weights_add name weight weightUp weightDown s =
     (case Weights_add (weights s) name weight weightUp weightDown of
        Inl e \<Rightarrow> (Inl e, s)
      | Inr w \<Rightarrow> (Inr (), s\<lparr>weights := w\<rparr>))"

text \<open>\<open>np.clip(x, lo, hi)\<close> is \<open>minimum(maximum(x, lo), hi)\<close>, elementwise.\<close>

definition clip :: "real \<Rightarrow> real \<Rightarrow> real \<Rightarrow> real" where
  "clip x lo hi = min (max x lo) hi"

text \<open>\<open>s.replace("_UL", "")\<close>: every occurrence, scanning from the left.\<close>

fun replace_UL :: "string \<Rightarrow> string" where
  "replace_UL [] = []"
| "replace_UL (c # s) =
     (if take 3 (c # s) = ''_UL'' then replace_UL (drop 2 s) else c # replace_UL s)"

text \<open>
  \<open>unflat_sf\<close> (from \<open>corrections/utils.py\<close>, not among the source files) is a parameter:
  it takes the flat per-object scale factors and the per-event object counts and returns
  the per-event weights, or raises.
\<close>

type_synonym unflat = "real list \<Rightarrow> nat list \<Rightarrow> error + real list"

subsection \<open>ElectronCorrector\<close>

record ElectronCorrector =
  e_variation :: string
  electrons_pt :: "real list"
  electrons_eta :: "real list"
  e_n :: "nat list"
  e_year :: string
  e_year_mod :: string
  e_pog_year :: string

definition electron_add_id_weight ::
  "correction_set \<Rightarrow> unflat \<Rightarrow> ElectronCorrector \<Rightarrow> string \<Rightarrow> (corr_state, unit) prog" where
  "electron_add_id_weight cset unflat_sf self id_working_point =
     (let electron_eta = electrons_eta self;
          electron_pt = map (\<lambda>x. clip x 10.0 499.999) (electrons_pt self);
          year = replace_UL (e_pog_year self)
      in bind_prog (evaluate cset ''UL-Electron-ID-SF''
                      [Str year, Str ''sf'', Str id_working_point, Arr electron_eta, Arr electron_pt])
           (\<lambda>sf. bind_prog (lift (unflat_sf sf (e_n self)))
           (\<lambda>nominal_sf.
              if e_variation self = ''nominal'' then
                bind_prog (evaluate cset ''UL-Electron-ID-SF''
                      [Str year, Str ''sfup'', Str id_working_point, Arr electron_eta, Arr electron_pt])
                (\<lambda>up. bind_prog (lift (unflat_sf up (e_n self)))
                (\<lambda>up_sf. bind_prog (evaluate cset ''UL-Electron-ID-SF''
                      [Str year, Str ''sfdown'', Str id_working_point, Arr electron_eta, Arr electron_pt])
                (\<lambda>down. bind_prog (lift (unflat_sf down (e_n self)))
                (\<lambda>down_sf. weights_add ''electron_id'' nominal_sf (Some up_sf) (Some down_sf)))))
              else weights_add ''electron_id'' nominal_sf None None)))"

definition electron_add_reco_weight ::
  "correction_set \<Rightarrow> unflat \<Rightarrow> ElectronCorrector \<Rightarrow> (corr_state, unit) prog" where
  "electron_add_reco_weight cset unflat_sf self =
     (let electron_eta = electrons_eta self;
          electron_pt = map (\<lambda>x. clip x 20.1 499.999) (electrons_pt self);
          year = replace_UL (e_pog_year self)
      in bind_prog (evaluate cset ''UL-Electron-ID-SF''
                      [Str year, Str ''sf'', Str ''RecoAbove20'', Arr electron_eta, Arr electron_pt])
           (\<lambda>sf. bind_prog (lift (unflat_sf sf (e_n self)))
           (\<lambda>nominal_sf.
              if e_variation self = ''nominal'' then
                bind_prog (evaluate cset ''UL-Electron-ID-SF''
                      [Str year, Str ''sfup'', Str ''RecoAbove20'', Arr electron_eta, Arr electron_pt])
                (\<lambda>up. bind_prog (lift (unflat_sf up (e_n self)))
                (\<lambda>up_sf. bind_prog (evaluate cset ''UL-Electron-ID-SF''
                      [Str year, Str ''sfdown'', Str ''RecoAbove20'', Arr electron_eta, Arr electron_pt])
                (\<lambda>down. bind_prog (lift (unflat_sf down (e_n self)))
                (\<lambda>down_sf. weights_add ''electron_reco'' nominal_sf (Some up_sf) (Some down_sf)))))
              else weights_add ''electron_reco'' nominal_sf None None)))"

subsection \<open>MuonCorrector\<close>

record MuonCorrector =
  m_variation :: string
  id_wp :: string
  iso_wp :: string
  muons_pt :: "real list"
  muons_eta :: "real list"
  m_n :: "nat list"
  m_year :: string
  m_year_mod :: string
  m_pog_year :: string

definition triggeriso_sfs_keys :: "string \<rightharpoonup> string" where
  "triggeriso_sfs_keys =
     [''2016'' \<mapsto> ''NUM_IsoMu24_or_IsoTkMu24_DEN_CutBasedIdTight_and_PFIsoTight'',
      ''2017'' \<mapsto> ''NUM_IsoMu27_DEN_CutBasedIdTight_and_PFIsoTight'',
      ''2018'' \<mapsto> ''NUM_IsoMu24_DEN_CutBasedIdTight_and_PFIsoTight'']"

definition triggeriso_assert_msg :: string where
  "triggeriso_assert_msg =
     ''there'' @ [CHR 0x27] @ ''s only available muon trigger SF for '' @ [CHR 0x27] @ ''tight'' @
     [CHR 0x27] @ '' ID and Iso''"

definition add_triggeriso_weight ::
  "correction_set \<Rightarrow> unflat \<Rightarrow> MuonCorrector \<Rightarrow> (corr_state, unit) prog" where
  "add_triggeriso_weight cset unflat_sf self =
     (if \<not> (id_wp self = ''tight'' \<and> iso_wp self = ''tight'')
      then raise (AssertionError triggeriso_assert_msg)
      else
        let muon_eta = map (\<lambda>x. clip \<bar>x\<bar> 0.0 2.399) (muons_eta self);
            muon_pt = map (\<lambda>x. clip x 29.0 199.999) (muons_pt self)
        in bind_prog (lift (dict_get triggeriso_sfs_keys (m_year self)))
           (\<lambda>key. bind_prog (evaluate cset key
                      [Str (m_pog_year self), Arr muon_eta, Arr muon_pt, Str ''sf''])
           (\<lambda>sf. bind_prog (lift (unflat_sf sf (m_n self)))
           (\<lambda>nominal_sf.
              if m_variation self = ''nominal'' then
                bind_prog (evaluate cset key
                      [Str (m_pog_year self), Arr muon_eta, Arr muon_pt, Str ''systup''])
                (\<lambda>up. bind_prog (lift (unflat_sf up (m_n self)))
                (\<lambda>up_sf. bind_prog (evaluate cset key
                      [Str (m_pog_year self), Arr muon_eta, Arr muon_pt, Str ''systdown''])
                (\<lambda>down. bind_prog (lift (unflat_sf down (m_n self)))
                (\<lambda>down_sf. weights_add ''muon_triggeriso'' nominal_sf (Some up_sf) (Some down_sf)))))
              else weights_add ''muon_triggeriso'' nominal_sf None None))))"

definition id_corrections :: "string \<rightharpoonup> string" where
  "id_corrections =
     [''loose'' \<mapsto> ''NUM_LooseID_DEN_TrackerMuons'',
      ''medium'' \<mapsto> ''NUM_MediumID_DEN_TrackerMuons'',
      ''tight'' \<mapsto> ''NUM_TightID_DEN_TrackerMuons'']"

text \<open>
  The local variable \<open>iso_correction\<close> of \<open>add_weight\<close> after the two \<open>if\<close> blocks of
  lines 306-317: \<open>None\<close> when no branch has assigned it.
\<close>

definition iso_correction :: "MuonCorrector \<Rightarrow> string option" where
  "iso_correction self =
     (let v1 = (if iso_wp self = ''loose'' then
                  (if id_wp self = ''loose'' then Some ''NUM_LooseRelIso_DEN_LooseID''
                   else if id_wp self = ''medium'' then Some ''NUM_LooseRelIso_DEN_MediumID''
                   else if id_wp self = ''tight'' then Some ''NUM_LooseRelIso_DEN_TightIDandIPCut''
                   else None)
                else None)
      in if iso_wp self = ''tight'' then
           (if id_wp self = ''medium'' then Some ''NUM_TightRelIso_DEN_MediumID''
            else if id_wp self = ''tight'' then Some ''NUM_TightRelIso_DEN_TightIDandIPCut''
            else v1)
         else v1)"

definition add_weight_assert_msg :: string where
  "add_weight_assert_msg = ''there'' @ [CHR 0x27] @ ''s no available SFs''"

definition add_weight ::
  "correction_set \<Rightarrow> unflat \<Rightarrow> MuonCorrector \<Rightarrow> string \<Rightarrow> (corr_state, unit) prog" where
  "add_weight cset unflat_sf self sf_type =
     (if iso_wp self = ''tight'' \<and> \<not> (id_wp self \<noteq> ''loose'')
      then raise (AssertionError add_weight_assert_msg)
      else
        let muon_eta = map (\<lambda>x. clip \<bar>x\<bar> 0.0 2.399) (muons_eta self);
            muon_pt = map (\<lambda>x. clip x 15.0 119.999) (muons_pt self)
        in bind_prog (lift (dict_get id_corrections (id_wp self)))
           (\<lambda>id_key. bind_prog
              (case iso_correction self of
                 None \<Rightarrow> raise (UnboundLocalError ''iso_correction'')
               | Some iso_key \<Rightarrow> ret [''id'' \<mapsto> id_key, ''iso'' \<mapsto> iso_key])
           (\<lambda>sfs_keys. bind_prog (lift (dict_get sfs_keys sf_type))
           (\<lambda>key. bind_prog (evaluate cset key
                      [Str (m_pog_year self), Arr muon_eta, Arr muon_pt, Str ''sf''])
           (\<lambda>sf. bind_prog (lift (unflat_sf sf (m_n self)))
           (\<lambda>nominal_sf.
              if m_variation self = ''nominal'' then
                bind_prog (evaluate cset key
                      [Str (m_pog_year self), Arr muon_eta, Arr muon_pt, Str ''systup''])
                (\<lambda>up. bind_prog (lift (unflat_sf up (m_n self)))
                (\<lambda>up_sf. bind_prog (evaluate cset key
                      [Str (m_pog_year self), Arr muon_eta, Arr muon_pt, Str ''systdown''])
                (\<lambda>down. bind_prog (lift (unflat_sf down (m_n self)))
                (\<lambda>down_sf. weights_add (''muon_'' @ sf_type) nominal_sf (Some up_sf) (Some down_sf)))))
              else weights_add (''muon_'' @ sf_type) nominal_sf None None))))))"

definition add_id_weight :: "correction_set \<Rightarrow> unflat \<Rightarrow> MuonCorrector \<Rightarrow> (corr_state, unit) prog" where
  "add_id_weight cset unflat_sf self = add_weight cset unflat_sf self ''id''"

definition add_iso_weight :: "correction_set \<Rightarrow> unflat \<Rightarrow> MuonCorrector \<Rightarrow> (corr_state, unit) prog" where
  "add_iso_weight cset unflat_sf self = add_weight cset unflat_sf self ''iso''"


section \<open>Vocabulary for the statements about the correctors\<close>

text \<open>The lookups made between two states: the entries appended to the log.\<close>

definition lookups_between :: "corr_state \<Rightarrow> corr_state \<Rightarrow> (string \<times> arg list) list" where
  "lookups_between s s' = drop (length (lookups s)) (lookups s')"

text \<open>One lookup followed by \<open>unflat_sf\<close>: the per-event array of one variant.\<close>

definition sf_lookup :: "correction_set \<Rightarrow> unflat \<Rightarrow> string \<Rightarrow> arg list \<Rightarrow> nat list \<Rightarrow> error + real list" where
  "sf_lookup cset unflat_sf key args n =
     (case cset key args of Inl e \<Rightarrow> Inl e | Inr flat \<Rightarrow> unflat_sf flat n)"

text \<open>The ledger of \<open>s'\<close> is the ledger of \<open>s\<close> with one more factor, registered last.\<close>

definition registered :: "corr_state \<Rightarrow> corr_state \<Rightarrow> string \<Rightarrow> WeightFactor \<Rightarrow> bool" where
  "registered s s' name f \<longleftrightarrow>
     weights s' = (weights s)\<lparr>w_factors := w_factors (weights s) @ [(name, f)]\<rparr>"

text \<open>
  The argument lists of the electron and muon lookups, as the source builds them: the
  electron lookups pass \<open>(year, variant, working point, eta, clipped pt)\<close>, the muon lookups
  pass \<open>(pog_year, clipped |eta|, clipped pt, variant)\<close>.
\<close>

definition electron_args :: "ElectronCorrector \<Rightarrow> real \<Rightarrow> string \<Rightarrow> string \<Rightarrow> arg list" where
  "electron_args e lo wp variant =
     [Str (replace_UL (e_pog_year e)), Str variant, Str wp, Arr (electrons_eta e),
      Arr (map (\<lambda>x. clip x lo 499.999) (electrons_pt e))]"

definition muon_args :: "MuonCorrector \<Rightarrow> real \<Rightarrow> real \<Rightarrow> string \<Rightarrow> arg list" where
  "muon_args m lo hi variant =
     [Str (m_pog_year m), Arr (map (\<lambda>x. clip \<bar>x\<bar> 0 2.399) (muons_eta m)),
      Arr (map (\<lambda>x. clip x lo hi) (muons_pt m)), Str variant]"

text \<open>
  What a successful \<open>add_..._weight\<close> call has done, depending on the variation flag:
  with \<open>''nominal''\<close>, exactly the three lookups \<open>v0\<close> (nominal), \<open>v1\<close> (up), \<open>v2\<close> (down),
  in this order, and one factor registered with the up/down pair; with any other flag,
  exactly the nominal lookup, and one factor registered without variants.
\<close>

definition variation_outcome ::
  "correction_set \<Rightarrow> unflat \<Rightarrow> string \<Rightarrow> string \<Rightarrow> (string \<Rightarrow> arg list) \<Rightarrow> string \<Rightarrow> string \<Rightarrow> string
     \<Rightarrow> nat list \<Rightarrow> string \<Rightarrow> corr_state \<Rightarrow> corr_state \<Rightarrow> bool" where
  "variation_outcome cset unflat_sf variation key args v0 v1 v2 n name s s' \<longleftrightarrow>
     (if variation = ''nominal'' then
        lookups_between s s' = [(key, args v0), (key, args v1), (key, args v2)] \<and>
        (\<exists>nom up down.
            sf_lookup cset unflat_sf key (args v0) n = Inr nom \<and>
            sf_lookup cset unflat_sf key (args v1) n = Inr up \<and>
            sf_lookup cset unflat_sf key (args v2) n = Inr down \<and>
            registered s s' name \<lparr>nominal = nom, variants = Some (up, down)\<rparr>)
      else
        lookups_between s s' = [(key, args v0)] \<and>
        (\<exists>nom. sf_lookup cset unflat_sf key (args v0) n = Inr nom \<and>
            registered s s' name \<lparr>nominal = nom, variants = None\<rparr>))"

text \<open>
  The four \<open>add_..._weight\<close> bodies repeat one block of code, from the nominal lookup to
  \<open>weights.add\<close>; \<open>sf_body\<close> is that block with its key, arguments and names as
  parameters, and \<open>sfs_key\<close> is the key that \<open>add_weight\<close> reads from its table
  \<open>sfs_keys\<close>.  Both serve the proofs only: each method is shown equal to its instance.
\<close>

definition sf_body ::
  "correction_set \<Rightarrow> unflat \<Rightarrow> string \<Rightarrow> string \<Rightarrow> (string \<Rightarrow> arg list) \<Rightarrow> string \<Rightarrow> string \<Rightarrow> string
     \<Rightarrow> nat list \<Rightarrow> string \<Rightarrow> (corr_state, unit) prog" where
  "sf_body cset unflat_sf variation key args v0 v1 v2 n name =
     bind_prog (evaluate cset key (args v0))
       (\<lambda>sf. bind_prog (lift (unflat_sf sf n))
       (\<lambda>nominal_sf.
          if variation = ''nominal'' then
            bind_prog (evaluate cset key (args v1))
            (\<lambda>up. bind_prog (lift (unflat_sf up n))
            (\<lambda>up_sf. bind_prog (evaluate cset key (args v2))
            (\<lambda>down. bind_prog (lift (unflat_sf down n))
            (\<lambda>down_sf. weights_add name nominal_sf (Some up_sf) (Some down_sf)))))
          else weights_add name nominal_sf None None))"

definition sfs_key :: "MuonCorrector \<Rightarrow> string \<Rightarrow> error + string" where
  "sfs_key m sf_type =
     (case id_corrections (id_wp m) of None \<Rightarrow> Inl (KeyError (id_wp m))
      | Some id_key \<Rightarrow>
         (case iso_correction m of None \<Rightarrow> Inl (UnboundLocalError ''iso_correction'')
          | Some iso_key \<Rightarrow> dict_get [''id'' \<mapsto> id_key, ''iso'' \<mapsto> iso_key] sf_type))"

subsection \<open>Example inputs for the correctors\<close>

text \<open>
  An \<open>unflat_sf\<close> that multiplies the scale factors of each event's objects, a scale-factor
  service that answers 1 for the nominal variant, 2 for "up" and 1/2 for "down", and
  correctors over three events with 2, 0 and 1 objects.
\<close>

fun unflat_prod :: "real list \<Rightarrow> nat list \<Rightarrow> real list" where
  "unflat_prod sf [] = []"
| "unflat_prod sf (k # ns) = prod_list (take k sf) # unflat_prod (drop k sf) ns"

definition ex_unflat :: unflat where
  "ex_unflat sf n = (if sum_list n = length sf then Inr (unflat_prod sf n)
                     else Inl (ExternalError ''counts''))"

definition ex_cset :: correction_set where
  "ex_cset key args =
     Inr (replicate (length (concat (take 1 [xs. Arr xs \<leftarrow> args])))
            (if Str ''sf'' \<in> set args then 1
             else if Str ''systup'' \<in> set args \<or> Str ''sfup'' \<in> set args then 2 else 1 / 2))"

definition ex_muons :: "string \<Rightarrow> string \<Rightarrow> string \<Rightarrow> MuonCorrector" where
  "ex_muons variation idwp isowp =
     \<lparr>m_variation = variation, id_wp = idwp, iso_wp = isowp, muons_pt = [10, 50, 300],
      muons_eta = [-3, 1, 2], m_n = [2, 0, 1], m_year = ''2017'', m_year_mod = [],
      m_pog_year = ''2017_UL''\<rparr>"

definition ex_electrons :: "string \<Rightarrow> ElectronCorrector" where
  "ex_electrons variation =
     \<lparr>e_variation = variation, electrons_pt = [5, 50, 1000], electrons_eta = [-3, 1, 2],
      e_n = [2, 0, 1], e_year = ''2017'', e_year_mod = [], e_pog_year = ''2017_UL''\<rparr>"

definition ex_state :: corr_state where
  "ex_state = \<lparr>weights = Weights_init 3, lookups = []\<rparr>"

section \<open>The correctors: proofs\<close>

subsection \<open>Each method is an instance of the shared block\<close>

lemma Weights_add_result:
  "Weights_add w name a b c = Inr w' \<Longrightarrow>
   w' = w\<lparr>w_factors := w_factors w @
          [(name, \<lparr>nominal = a,
                   variants = (case (b, c) of (Some u, Some d) \<Rightarrow> Some (u, d) | _ \<Rightarrow> None)\<rparr>)]\<rparr>"
  by (auto simp: Weights_add_def split: if_splits option.splits)

lemma sf_body_outcome:
  "sf_body cset u variation key args v0 v1 v2 n name s = (Inr (), s') \<Longrightarrow>
   variation_outcome cset u variation key args v0 v1 v2 n name s s'"
  unfolding variation_outcome_def
  by (auto simp: lookups_between_def sf_body_def bind_prog_def evaluate_def lift_def
      weights_add_def sf_lookup_def registered_def
      split: sum.splits prod.splits if_splits dest!: Weights_add_result)

lemma sf_body_lookups:
  "set (lookups_between s (snd (sf_body cset u variation key args v0 v1 v2 n name s)))
     \<subseteq> {(key, args v0), (key, args v1), (key, args v2)}"
  by (auto simp: lookups_between_def sf_body_def bind_prog_def evaluate_def lift_def
      weights_add_def split: sum.splits prod.splits if_splits)

lemma electron_add_id_weight_eq:
  "electron_add_id_weight cset u e wp =
   sf_body cset u (e_variation e) ''UL-Electron-ID-SF'' (electron_args e 10 wp)
      ''sf'' ''sfup'' ''sfdown'' (e_n e) ''electron_id''"
  by (simp add: electron_add_id_weight_def sf_body_def electron_args_def Let_def cong: if_cong)

lemma electron_add_reco_weight_eq:
  "electron_add_reco_weight cset u e =
   sf_body cset u (e_variation e) ''UL-Electron-ID-SF'' (electron_args e 20.1 ''RecoAbove20'')
      ''sf'' ''sfup'' ''sfdown'' (e_n e) ''electron_reco''"
  by (simp add: electron_add_reco_weight_def sf_body_def electron_args_def Let_def cong: if_cong)

lemma add_triggeriso_weight_eq:
  "add_triggeriso_weight cset u m s =
   (if \<not> (id_wp m = ''tight'' \<and> iso_wp m = ''tight'')
    then (Inl (AssertionError triggeriso_assert_msg), s)
    else case triggeriso_sfs_keys (m_year m) of
           None \<Rightarrow> (Inl (KeyError (m_year m)), s)
         | Some key \<Rightarrow> sf_body cset u (m_variation m) key (muon_args m 29 199.999)
                         ''sf'' ''systup'' ''systdown'' (m_n m) ''muon_triggeriso'' s)"
  by (simp add: add_triggeriso_weight_def sf_body_def muon_args_def Let_def raise_def
      bind_prog_def lift_def dict_get_def split: option.splits cong: if_cong)

lemma add_weight_eq:
  "add_weight cset u m sf_type s =
   (if iso_wp m = ''tight'' \<and> id_wp m = ''loose''
    then (Inl (AssertionError add_weight_assert_msg), s)
    else case sfs_key m sf_type of
           Inl e \<Rightarrow> (Inl e, s)
         | Inr key \<Rightarrow> sf_body cset u (m_variation m) key (muon_args m 15 119.999)
                        ''sf'' ''systup'' ''systdown'' (m_n m) (''muon_'' @ sf_type) s)"
  by (simp add: add_weight_def sf_body_def muon_args_def Let_def raise_def ret_def sfs_key_def
      bind_prog_def lift_def dict_get_def split: option.splits cong: if_cong)

lemma iso_correction_unassigned:
  "iso_wp self \<noteq> ''loose'' \<Longrightarrow> iso_wp self \<noteq> ''tight'' \<Longrightarrow> iso_correction self = None"
  by (simp add: iso_correction_def)

lemma id_corrections_None:
  "id_corrections k = None \<longleftrightarrow> k \<notin> {''loose'', ''medium'', ''tight''}"
  by (simp add: id_corrections_def)

lemma sfs_key_unassigned:
  "iso_wp m \<notin> {''loose'', ''tight''} \<Longrightarrow>
   sfs_key m sf_type = Inl (if id_wp m \<in> {''loose'', ''medium'', ''tight''}
                            then UnboundLocalError ''iso_correction'' else KeyError (id_wp m))"
  using id_corrections_None[of "id_wp m"]
  by (auto simp: sfs_key_def iso_correction_unassigned split: option.splits)

subsection \<open>The trigger scale factor needs the tight working points\<close>

text \<open>
  Claim C3.  For every MuonCorrector whose ID working point or isolation working point
  differs from "tight", \<open>add_triggeriso_weight\<close> fails before any scale-factor lookup and
  registers nothing: the call returns the error and leaves the state (the weight ledger
  and the log of lookups) exactly as it was.  The error the source raises for this
  configuration error is Python's \<open>AssertionError\<close>, from the \<open>assert\<close> that opens the
  method.
\<close>

theorem C3_triggeriso_requires_tight:
  "id_wp self \<noteq> ''tight'' \<or> iso_wp self \<noteq> ''tight'' \<Longrightarrow>
   add_triggeriso_weight cset unflat_sf self s = (Inl (AssertionError triggeriso_assert_msg), s)"
  by (auto simp: add_triggeriso_weight_def raise_def)

theorem C3_triggeriso_requires_tight_witness:
  "id_wp (ex_muons ''nominal'' ''loose'' ''tight'') \<noteq> ''tight'' \<and>
   add_triggeriso_weight ex_cset ex_unflat (ex_muons ''nominal'' ''loose'' ''tight'') ex_state
     = (Inl (AssertionError triggeriso_assert_msg), ex_state)"
  using C3_triggeriso_requires_tight
          [of "ex_muons ''nominal'' ''loose'' ''tight''" ex_cset ex_unflat ex_state]
  by (simp add: ex_muons_def)

subsection \<open>The values passed to the scale-factor service are clamped\<close>

text \<open>
  Claim C4.  Every lookup made by the electron ID method passes the electrons' eta
  unchanged and their pt clipped to [10.0, 499.999]; every lookup made by the muon ID and
  isolation methods (\<open>add_weight\<close>) passes |eta| clipped to [0.0, 2.399] and pt clipped to
  [15.0, 119.999]; every lookup made by the muon trigger method passes |eta| clipped to
  [0.0, 2.399] and pt clipped to [29.0, 199.999].  The statement covers the lookups of
  failing calls as well, and says that every value passed lies in the interval.
\<close>

theorem C4_lookup_arguments_clamped:
  "(\<forall>(key, args) \<in> set (lookups_between s (snd (electron_add_id_weight cset u e wp s))).
      \<exists>variant pt. args = [Str (replace_UL (e_pog_year e)), Str variant, Str wp,
                            Arr (electrons_eta e), Arr pt] \<and>
         pt = map (\<lambda>x. clip x 10 499.999) (electrons_pt e) \<and>
         (\<forall>p \<in> set pt. 10 \<le> p \<and> p \<le> 499.999)) \<and>
   (\<forall>(key, args) \<in> set (lookups_between t (snd (add_weight cset u m sf_type t))).
      \<exists>variant eta pt. args = [Str (m_pog_year m), Arr eta, Arr pt, Str variant] \<and>
         eta = map (\<lambda>x. clip \<bar>x\<bar> 0 2.399) (muons_eta m) \<and>
         pt = map (\<lambda>x. clip x 15 119.999) (muons_pt m) \<and>
         (\<forall>a \<in> set eta. 0 \<le> a \<and> a \<le> 2.399) \<and> (\<forall>p \<in> set pt. 15 \<le> p \<and> p \<le> 119.999)) \<and>
   (\<forall>(key, args) \<in> set (lookups_between t (snd (add_triggeriso_weight cset u m t))).
      \<exists>variant eta pt. args = [Str (m_pog_year m), Arr eta, Arr pt, Str variant] \<and>
         eta = map (\<lambda>x. clip \<bar>x\<bar> 0 2.399) (muons_eta m) \<and>
         pt = map (\<lambda>x. clip x 29 199.999) (muons_pt m) \<and>
         (\<forall>a \<in> set eta. 0 \<le> a \<and> a \<le> 2.399) \<and> (\<forall>p \<in> set pt. 29 \<le> p \<and> p \<le> 199.999))"
proof (intro conjI)
  show "\<forall>(key, args) \<in> set (lookups_between s (snd (electron_add_id_weight cset u e wp s))).
      \<exists>variant pt. args = [Str (replace_UL (e_pog_year e)), Str variant, Str wp,
                            Arr (electrons_eta e), Arr pt] \<and>
         pt = map (\<lambda>x. clip x 10 499.999) (electrons_pt e) \<and>
         (\<forall>p \<in> set pt. 10 \<le> p \<and> p \<le> 499.999)"
    using sf_body_lookups[of s cset u "e_variation e" "''UL-Electron-ID-SF''"
        "electron_args e 10 wp" "''sf''" "''sfup''" "''sfdown''" "e_n e" "''electron_id''"]
    by (auto simp: electron_add_id_weight_eq electron_args_def clip_def)
next
  show "\<forall>(key, args) \<in> set (lookups_between t (snd (add_weight cset u m sf_type t))).
      \<exists>variant eta pt. args = [Str (m_pog_year m), Arr eta, Arr pt, Str variant] \<and>
         eta = map (\<lambda>x. clip \<bar>x\<bar> 0 2.399) (muons_eta m) \<and>
         pt = map (\<lambda>x. clip x 15 119.999) (muons_pt m) \<and>
         (\<forall>a \<in> set eta. 0 \<le> a \<and> a \<le> 2.399) \<and> (\<forall>p \<in> set pt. 15 \<le> p \<and> p \<le> 119.999)"
  proof (cases "sfs_key m sf_type")
    case (Inl err)
    then show ?thesis by (simp add: add_weight_eq lookups_between_def)
  next
    case (Inr key)
    then show ?thesis
      using sf_body_lookups[of t cset u "m_variation m" key "muon_args m 15 119.999"
        "''sf''" "''systup''" "''systdown''" "m_n m" "''muon_'' @ sf_type"]
      by (auto simp: add_weight_eq lookups_between_def[of t t] muon_args_def clip_def)
  qed
next
  show "\<forall>(key, args) \<in> set (lookups_between t (snd (add_triggeriso_weight cset u m t))).
      \<exists>variant eta pt. args = [Str (m_pog_year m), Arr eta, Arr pt, Str variant] \<and>
         eta = map (\<lambda>x. clip \<bar>x\<bar> 0 2.399) (muons_eta m) \<and>
         pt = map (\<lambda>x. clip x 29 199.999) (muons_pt m) \<and>
         (\<forall>a \<in> set eta. 0 \<le> a \<and> a \<le> 2.399) \<and> (\<forall>p \<in> set pt. 29 \<le> p \<and> p \<le> 199.999)"
  proof (cases "triggeriso_sfs_keys (m_year m)")
    case None
    then show ?thesis by (simp add: add_triggeriso_weight_eq lookups_between_def)
  next
    case (Some key)
    then show ?thesis
      using sf_body_lookups[of t cset u "m_variation m" key "muon_args m 29 199.999"
        "''sf''" "''systup''" "''systdown''" "m_n m" "''muon_triggeriso''"]
      by (auto simp: add_triggeriso_weight_eq lookups_between_def[of t t] muon_args_def clip_def)
  qed
qed

theorem C4_lookup_arguments_clamped_witness:
  "(''UL-Electron-ID-SF'',
      [Str ''2017'', Str ''sf'', Str ''wp80iso'', Arr [-3, 1, 2], Arr [10, 50, 499.999]])
     \<in> set (lookups_between ex_state
          (snd (electron_add_id_weight ex_cset ex_unflat (ex_electrons ''nominal'') ''wp80iso''
                  ex_state))) \<and>
   (''NUM_TightID_DEN_TrackerMuons'',
      [Str ''2017_UL'', Arr [2.399, 1, 2], Arr [15, 50, 119.999], Str ''sf''])
     \<in> set (lookups_between ex_state
          (snd (add_weight ex_cset ex_unflat (ex_muons ''nominal'' ''tight'' ''tight'') ''id''
                  ex_state))) \<and>
   (''NUM_IsoMu27_DEN_CutBasedIdTight_and_PFIsoTight'',
      [Str ''2017_UL'', Arr [2.399, 1, 2], Arr [29, 50, 199.999], Str ''sf''])
     \<in> set (lookups_between ex_state
          (snd (add_triggeriso_weight ex_cset ex_unflat (ex_muons ''nominal'' ''tight'' ''tight'')
                  ex_state)))"
  using C4_lookup_arguments_clamped
          [of ex_state ex_cset ex_unflat "ex_electrons ''nominal''" "''wp80iso''" ex_state
              "ex_muons ''nominal'' ''tight'' ''tight''" "''id''"]
  by (simp add: lookups_between_def electron_add_id_weight_eq add_weight_eq
      add_triggeriso_weight_eq sf_body_def bind_prog_def
      evaluate_def lift_def ex_state_def ex_cset_def ex_unflat_def ex_electrons_def ex_muons_def
      electron_args_def muon_args_def clip_def sfs_key_def id_corrections_def iso_correction_def
      triggeriso_sfs_keys_def dict_get_def weights_add_def Weights_add_def Weights_init_def)

subsection \<open>The variation flag decides which variants are looked up and registered\<close>

text \<open>
  Claim C5.  For every successful call of a corrector method (electron ID, electron
  reconstruction, muon \<open>add_weight\<close> and its two wrappers, muon trigger): if the
  corrector's variation flag is "nominal", the nominal, "up" and "down" variants are
  looked up, in this order and nothing else, and the factor is registered with the pair
  of up/down arrays obtained from these lookups; for any other value of the flag only the
  nominal scale factor is looked up and the factor is registered without variants.
\<close>

theorem C5_variation_flag:
  "(electron_add_id_weight cset u e wp s = (Inr (), s') \<longrightarrow>
      variation_outcome cset u (e_variation e) ''UL-Electron-ID-SF'' (electron_args e 10 wp)
        ''sf'' ''sfup'' ''sfdown'' (e_n e) ''electron_id'' s s') \<and>
   (electron_add_reco_weight cset u e s = (Inr (), s') \<longrightarrow>
      variation_outcome cset u (e_variation e) ''UL-Electron-ID-SF''
        (electron_args e 20.1 ''RecoAbove20'')
        ''sf'' ''sfup'' ''sfdown'' (e_n e) ''electron_reco'' s s') \<and>
   (add_weight cset u m sf_type t = (Inr (), t') \<longrightarrow>
      (\<exists>key. variation_outcome cset u (m_variation m) key (muon_args m 15 119.999)
        ''sf'' ''systup'' ''systdown'' (m_n m) (''muon_'' @ sf_type) t t')) \<and>
   (add_id_weight cset u m t = (Inr (), t') \<longrightarrow>
      (\<exists>key. variation_outcome cset u (m_variation m) key (muon_args m 15 119.999)
        ''sf'' ''systup'' ''systdown'' (m_n m) ''muon_id'' t t')) \<and>
   (add_iso_weight cset u m t = (Inr (), t') \<longrightarrow>
      (\<exists>key. variation_outcome cset u (m_variation m) key (muon_args m 15 119.999)
        ''sf'' ''systup'' ''systdown'' (m_n m) ''muon_iso'' t t')) \<and>
   (add_triggeriso_weight cset u m t = (Inr (), t') \<longrightarrow>
      (\<exists>key. variation_outcome cset u (m_variation m) key (muon_args m 29 199.999)
        ''sf'' ''systup'' ''systdown'' (m_n m) ''muon_triggeriso'' t t'))"
proof -
  have aw: "\<exists>key. variation_outcome cset u (m_variation m) key (muon_args m 15 119.999)
        ''sf'' ''systup'' ''systdown'' (m_n m) (''muon_'' @ ty) t t'"
    if "add_weight cset u m ty t = (Inr (), t')" for ty
    using that sf_body_outcome[of cset u "m_variation m" _ "muon_args m 15 119.999"
        "''sf''" "''systup''" "''systdown''" "m_n m" "''muon_'' @ ty" t t']
    by (auto simp: add_weight_eq split: if_splits sum.splits)
  have tr: "\<exists>key. variation_outcome cset u (m_variation m) key (muon_args m 29 199.999)
        ''sf'' ''systup'' ''systdown'' (m_n m) ''muon_triggeriso'' t t'"
    if "add_triggeriso_weight cset u m t = (Inr (), t')"
    using that sf_body_outcome[of cset u "m_variation m" _ "muon_args m 29 199.999"
        "''sf''" "''systup''" "''systdown''" "m_n m" "''muon_triggeriso''" t t']
    by (auto simp: add_triggeriso_weight_eq split: if_splits option.splits)
  show ?thesis
    using aw[of sf_type] aw[of "''id''"] aw[of "''iso''"] tr
    by (auto simp: electron_add_id_weight_eq electron_add_reco_weight_eq
        add_id_weight_def add_iso_weight_def dest: sf_body_outcome)
qed

theorem C5_variation_flag_witness:
  "add_iso_weight ex_cset ex_unflat (ex_muons ''nominal'' ''tight'' ''tight'') ex_state =
     (Inr (), \<lparr>weights = \<lparr>w_size = 3, w_factors =
        [(''muon_iso'', \<lparr>nominal = [1, 1, 1], variants = Some ([4, 1, 2], [1 / 4, 1, 1 / 2])\<rparr>)]\<rparr>,
       lookups = [(''NUM_TightRelIso_DEN_TightIDandIPCut'',
                    muon_args (ex_muons ''nominal'' ''tight'' ''tight'') 15 119.999 ''sf''),
                  (''NUM_TightRelIso_DEN_TightIDandIPCut'',
                    muon_args (ex_muons ''nominal'' ''tight'' ''tight'') 15 119.999 ''systup''),
                  (''NUM_TightRelIso_DEN_TightIDandIPCut'',
                    muon_args (ex_muons ''nominal'' ''tight'' ''tight'') 15 119.999
                      ''systdown'')]\<rparr>) \<and>
   add_iso_weight ex_cset ex_unflat (ex_muons ''muon_idUp'' ''tight'' ''tight'') ex_state =
     (Inr (), \<lparr>weights = \<lparr>w_size = 3, w_factors =
        [(''muon_iso'', \<lparr>nominal = [1, 1, 1], variants = None\<rparr>)]\<rparr>,
       lookups = [(''NUM_TightRelIso_DEN_TightIDandIPCut'',
                    muon_args (ex_muons ''muon_idUp'' ''tight'' ''tight'') 15 119.999 ''sf'')]\<rparr>)"
  using C5_variation_flag
          [of ex_cset ex_unflat "ex_electrons ''nominal''" "''wp80iso''" ex_state ex_state
              "ex_muons ''nominal'' ''tight'' ''tight''" "''iso''" ex_state
              "snd (add_iso_weight ex_cset ex_unflat (ex_muons ''nominal'' ''tight'' ''tight'')
                      ex_state)"]
  by (simp add: add_iso_weight_def add_weight_eq sf_body_def bind_prog_def
      evaluate_def lift_def ex_state_def ex_cset_def ex_unflat_def ex_muons_def
      muon_args_def clip_def sfs_key_def id_corrections_def iso_correction_def
      dict_get_def weights_add_def Weights_add_def Weights_init_def)

subsection \<open>An isolation working point other than loose or tight\<close>

text \<open>
  Claim C10.  For every MuonCorrector whose isolation working point is neither "loose"
  nor "tight" (the documented value "medium", for example), every call of \<open>add_weight\<close>,
  and hence of \<open>add_id_weight\<close> and \<open>add_iso_weight\<close>, fails, whichever scale factor is
  asked for, without a lookup and without registering anything.  When the ID working
  point is one of the three known ones, the failure is the read of the local variable
  \<open>iso_correction\<close>, which no branch has assigned, while the key table is built; an
  unknown ID working point fails one step earlier, on the key table of the ID corrections.
\<close>

theorem C10_iso_wp_unassigned:
  "iso_wp m \<notin> {''loose'', ''tight''} \<Longrightarrow>
   (let err = (if id_wp m \<in> {''loose'', ''medium'', ''tight''}
               then UnboundLocalError ''iso_correction'' else KeyError (id_wp m))
    in add_weight cset u m sf_type s = (Inl err, s) \<and>
       add_id_weight cset u m s = (Inl err, s) \<and>
       add_iso_weight cset u m s = (Inl err, s))"
  by (simp add: add_id_weight_def add_iso_weight_def add_weight_eq sfs_key_unassigned Let_def)

theorem C10_iso_wp_unassigned_witness:
  "iso_wp (ex_muons ''nominal'' ''tight'' ''medium'') \<notin> {''loose'', ''tight''} \<and>
   add_weight ex_cset ex_unflat (ex_muons ''nominal'' ''tight'' ''medium'') ''id'' ex_state
     = (Inl (UnboundLocalError ''iso_correction''), ex_state) \<and>
   add_id_weight ex_cset ex_unflat (ex_muons ''nominal'' ''tight'' ''medium'') ex_state
     = (Inl (UnboundLocalError ''iso_correction''), ex_state) \<and>
   add_iso_weight ex_cset ex_unflat (ex_muons ''nominal'' ''tight'' ''medium'') ex_state
     = (Inl (UnboundLocalError ''iso_correction''), ex_state)"
  using C10_iso_wp_unassigned
          [of "ex_muons ''nominal'' ''tight'' ''medium''" ex_cset ex_unflat "''id''" ex_state]
  by (simp add: ex_muons_def Let_def)

end
